theory Spec2Isabelle
  imports Main
begin

section \<open>Values carried by request bodies\<close>

text \<open>
  The handlers of the relay server read fields of parsed request bodies and store some of
  them unchanged in job records. A field is any JSON value, or missing (\<open>JUndefined\<close>).
  The handlers never calculate with a number of a body: they test its truth value, use
  it as a property name and store it. A number is therefore given by the text JavaScript
  prints for it (\<open>0\<close>, \<open>-1.5\<close>, \<open>1e+21\<close>); the numbers that are not truthy, 0 and -0
  and NaN, print as \<open>0\<close> and \<open>NaN\<close>.
\<close>

datatype jsval =
    JUndefined
  | JNull
  | JBool bool
  | JNum string
  | JStr string
  | JArr "jsval list"
  | JObj "(string \<times> jsval) list"

text \<open>The truth value the operators \<open>!\<close>, \<open>&&\<close> and \<open>||\<close> give a value.\<close>

fun truthy :: "jsval \<Rightarrow> bool" where
  "truthy JUndefined = False"
| "truthy JNull = False"
| "truthy (JBool b) = b"
| "truthy (JNum n) = (n \<noteq> ''0'' \<and> n \<noteq> ''NaN'')"
| "truthy (JStr s) = (s \<noteq> [])"
| "truthy (JArr xs) = True"
| "truthy (JObj kvs) = True"

text \<open>
  \<open>jobs[jobId]\<close> turns \<open>jobId\<close> into a property name first. A string is taken as it is and
  a number as it prints. An array is joined with commas, an element that is \<open>null\<close> or
  \<open>undefined\<close> giving the empty string. Any other object of a parsed body has no callable
  method of its own: if it has a property \<open>toString\<close> of its own the conversion throws a
  TypeError (\<open>None\<close>), otherwise the inherited method gives \<open>[object Object]\<close>.
\<close>

fun join_comma :: "string list \<Rightarrow> string" where
  "join_comma [] = []"
| "join_comma [s] = s"
| "join_comma (s # t # ts) = s @ CHR '','' # join_comma (t # ts)"

fun to_key :: "jsval \<Rightarrow> string option" where
  "to_key JUndefined = Some ''undefined''"
| "to_key JNull = Some ''null''"
| "to_key (JBool b) = Some (if b then ''true'' else ''false'')"
| "to_key (JNum n) = Some n"
| "to_key (JStr s) = Some s"
| "to_key (JArr xs) =
     map_option join_comma
       (those (map (\<lambda>v. if v = JUndefined \<or> v = JNull then Some [] else to_key v) xs))"
| "to_key (JObj kvs) =
     (if ''toString'' \<in> fst ` set kvs then None else Some ''[object Object]'')"

section \<open>The job store\<close>

text \<open>
  A job record is the object literal the upload handler stores under \<open>jobs[jobId]\<close>, with the
  two properties added later: \<open>message\<close> (by the upload handler's \<open>catch\<close>) and \<open>result\<close> (by
  the callback handler). A property that has not been set is \<open>None\<close>.
\<close>

record job_result =
  display_metric :: jsval
  result_message :: jsval

record job =
  job_id :: string
  status :: jsval
  progress :: int
  email :: jsval
  message :: "string option"
  result :: "job_result option"

text \<open>
  The store \<open>jobs\<close> is a plain object, created as \<open>{}\<close>. Its own properties are the job
  records, a map from property names to records. Reading \<open>jobs[k]\<close> where \<open>jobs\<close> has no
  property \<open>k\<close> of its own goes on to \<open>Object.prototype\<close>, whose properties are built-in
  functions, and under \<open>__proto__\<close> \<open>Object.prototype\<close> itself. All of them are objects and
  so truthy.
\<close>

type_synonym job_store = "string \<rightharpoonup> job"

definition object_prototype_names :: "string list" where
  "object_prototype_names =
     [''constructor'', ''__defineGetter__'', ''__defineSetter__'', ''hasOwnProperty'',
      ''__lookupGetter__'', ''__lookupSetter__'', ''isPrototypeOf'', ''propertyIsEnumerable'',
      ''toString'', ''valueOf'', ''__proto__'', ''toLocaleString'']"

datatype found = NoProperty | OwnJob job | Inherited string

definition lookup :: "job_store \<Rightarrow> string \<Rightarrow> found" where
  "lookup jobs k =
     (case jobs k of
        Some job \<Rightarrow> OwnJob job
      | None \<Rightarrow> if k \<in> set object_prototype_names then Inherited k else NoProperty)"

text \<open>
  The model follows the server while the built-in objects are as the runtime made them.
  A handler that assigns to a property of a built-in object leaves the model: its result
  is the value \<open>WroteBuiltin\<close>, which names the property of \<open>jobs\<close> under which the object was
  found and the status and result written onto it (with progress 100). The model says
  nothing of the server from there on, since a property written onto \<open>Object.prototype\<close>
  is inherited by every plain object the handlers read afterwards.
\<close>

datatype escape = WroteBuiltin string jsval job_result

section \<open>Responses\<close>

text \<open>
  The status code and the body. \<open>InheritedProperty n\<close> is what \<open>res.json\<close> sends for the
  built-in object found under \<open>n\<close>.
\<close>

datatype response_body =
    MessageOnly string
  | StatusMessage string string
  | UploadStarted string string string
  | UploadFailed string string jsval
  | JobRecord job
  | InheritedProperty string

datatype response = Response nat response_body

section \<open>Status handler: GET /api/status/:jobId\<close>

definition status_handler :: "job_store \<Rightarrow> string \<Rightarrow> job_store \<times> response" where
  "status_handler jobs jobId =
     (case lookup jobs jobId of
        NoProperty \<Rightarrow> (jobs, Response 404 (StatusMessage ''error'' ''Job not found''))
      | OwnJob job \<Rightarrow> (jobs, Response 200 (JobRecord job))
      | Inherited n \<Rightarrow> (jobs, Response 200 (InheritedProperty n)))"

section \<open>Callback handler: POST /api/callback\<close>

record callback_body =
  cb_jobId :: jsval
  cb_status :: jsval
  cb_display_metric :: jsval
  cb_message :: jsval

text \<open>
  The argument is \<open>req.body\<close>: \<open>None\<close> when there is no parsed body to take the four fields
  from. That, and a \<open>jobId\<close> whose conversion to a property name throws, are the ways into
  the handler's \<open>catch\<close>. The three assignments go to whatever \<open>jobs[jobId]\<close> is: a record of
  the store, or a built-in object.
\<close>

definition callback_handler ::
  "job_store \<Rightarrow> callback_body option \<Rightarrow> escape + job_store \<times> response" where
  "callback_handler jobs req_body =
     (case req_body of
        None \<Rightarrow> Inr (jobs, Response 500 (StatusMessage ''error'' ''Failed to process callback''))
      | Some b \<Rightarrow>
          if \<not> truthy (cb_jobId b)
          then Inr (jobs, Response 200 (StatusMessage ''success'' ''Callback processed''))
          else
            (case to_key (cb_jobId b) of
               None \<Rightarrow>
                 Inr (jobs, Response 500 (StatusMessage ''error'' ''Failed to process callback''))
             | Some k \<Rightarrow>
                 (case lookup jobs k of
                    NoProperty \<Rightarrow>
                      Inr (jobs, Response 200 (StatusMessage ''success'' ''Callback processed''))
                  | OwnJob job \<Rightarrow>
                      Inr (jobs(k \<mapsto>
                             job\<lparr>status := (if truthy (cb_status b) then cb_status b
                                             else JStr ''completed''),
                                 progress := 100,
                                 result := Some \<lparr>display_metric = cb_display_metric b,
                                                 result_message = cb_message b\<rparr>\<rparr>),
                           Response 200 (StatusMessage ''success'' ''Callback processed''))
                  | Inherited n \<Rightarrow>
                      Inl (WroteBuiltin n
                             (if truthy (cb_status b) then cb_status b else JStr ''completed'')
                             \<lparr>display_metric = cb_display_metric b,
                              result_message = cb_message b\<rparr>))))"

section \<open>Upload handler: POST /api/upload\<close>

text \<open>
  In this handler \<open>jobId\<close> is what \<open>uuidv4()\<close> returned, a UUID and so never a name that
  \<open>jobs\<close> inherits; the handler first stores a record of its own under it, and
  \<open>jobs[jobId]\<close> is read here as the store's own property.

  The request as the handler reads it: \<open>req.files?.csv\<close> (here the path of the stored file,
  when the field is there) and \<open>req.body.email\<close>.
\<close>

record upload_request =
  req_csv :: "string option"
  req_email :: jsval

text \<open>
  What the handler's \<open>catch\<close> reads of a thrown error: \<open>error.message\<close> and, for a failed
  HTTP call that got an answer, \<open>error.response.data\<close>.
\<close>

record js_error =
  err_message :: string
  err_response_data :: "jsval option"

datatype 'a outcome = Returns 'a | Throws js_error

text \<open>
  The storage client resolves to \<open>{data, error}\<close>: either an error object (of which only
  \<open>message\<close> is read) or the path of the stored object.
\<close>

datatype storage_reply = StorageError string | StorageData string

text \<open>
  The \<open>catch\<close> block of the upload handler, entered with the thrown error: it marks the
  record if there is one and answers 500.
\<close>

definition upload_catch :: "job_store \<Rightarrow> string \<Rightarrow> js_error \<Rightarrow> job_store \<times> response" where
  "upload_catch jobs jobId error =
     ((case jobs jobId of
         None \<Rightarrow> jobs
       | Some job \<Rightarrow> jobs(jobId \<mapsto> job\<lparr>status := JStr ''error'', message := Some (err_message error)\<rparr>)),
      Response 500
        (UploadFailed ''error'' (''Upload process failed: '' @ err_message error)
           (case err_response_data error of
              None \<Rightarrow> JNull
            | Some d \<Rightarrow> if truthy d then d else JNull)))"

text \<open>
  The handler is asynchronous and gives up control at its two \<open>await\<close>s. It is modelled as
  three parts, each running from one suspension to the next; a part either sends the
  response or suspends again. The external steps (reading the file, the storage upload,
  deleting the local file, the call to the trainer) enter as their outcomes.
\<close>

datatype upload_step = Responded response | Suspended

text \<open>From the start of the handler to the \<open>await\<close> of the storage upload.\<close>

definition upload_begin ::
  "job_store \<Rightarrow> string \<Rightarrow> upload_request \<Rightarrow> unit outcome \<Rightarrow> job_store \<times> upload_step" where
  "upload_begin jobs jobId req read_file =
     (case req_csv req of
        None \<Rightarrow> (jobs, Responded (Response 400 (MessageOnly ''CSV file is required'')))
      | Some csvPath \<Rightarrow>
          if \<not> truthy (req_email req)
          then (jobs, Responded (Response 400 (MessageOnly ''Email is required'')))
          else
            let jobs1 = jobs(jobId \<mapsto>
                  \<lparr>job_id = jobId, status = JStr ''uploading'', progress = 10,
                   email = req_email req, message = None, result = None\<rparr>)
            in (case read_file of
                  Throws error \<Rightarrow>
                    (let (jobs2, r) = upload_catch jobs1 jobId error in (jobs2, Responded r))
                | Returns _ \<Rightarrow> (jobs1, Suspended)))"

text \<open>
  From the answer of the storage upload to the \<open>await\<close> of the trainer call. Assigning to
  \<open>jobs[jobId].status\<close> throws a TypeError when there is no such record.
\<close>

definition upload_after_storage ::
  "job_store \<Rightarrow> string \<Rightarrow> storage_reply outcome \<Rightarrow> unit outcome \<Rightarrow> job_store \<times> upload_step" where
  "upload_after_storage jobs jobId storage unlink =
     (case storage of
        Throws error \<Rightarrow>
          (let (jobs2, r) = upload_catch jobs jobId error in (jobs2, Responded r))
      | Returns (StorageError msg) \<Rightarrow>
          (let (jobs2, r) = upload_catch jobs jobId
                 \<lparr>err_message = ''Supabase upload failed: '' @ (if msg \<noteq> [] then msg else ''Unknown error''),
                  err_response_data = None\<rparr>
           in (jobs2, Responded r))
      | Returns (StorageData p) \<Rightarrow>
          (case jobs jobId of
             None \<Rightarrow>
               (let (jobs2, r) = upload_catch jobs jobId
                      \<lparr>err_message = ''Cannot set properties of undefined (setting 'status')'',
                       err_response_data = None\<rparr>
                in (jobs2, Responded r))
           | Some job \<Rightarrow>
               let jobs1 = jobs(jobId \<mapsto> job\<lparr>status := JStr ''training'', progress := 40\<rparr>)
               in (case unlink of
                     Throws error \<Rightarrow>
                       (let (jobs2, r) = upload_catch jobs1 jobId error in (jobs2, Responded r))
                   | Returns _ \<Rightarrow> (jobs1, Suspended))))"

text \<open>From the answer of the trainer call to the response.\<close>

definition upload_after_trainer ::
  "job_store \<Rightarrow> string \<Rightarrow> unit outcome \<Rightarrow> job_store \<times> response" where
  "upload_after_trainer jobs jobId trainer =
     (case trainer of
        Throws error \<Rightarrow> upload_catch jobs jobId error
      | Returns _ \<Rightarrow>
          (jobs, Response 200 (UploadStarted ''success'' ''CSV uploaded & ML training started'' jobId)))"

text \<open>
  One request handled from start to response with no other request in between.
  \<open>jobId\<close> is what \<open>uuidv4()\<close> returned for this request.
\<close>

record upload_env =
  env_read_file :: "unit outcome"
  env_storage :: "storage_reply outcome"
  env_unlink :: "unit outcome"
  env_trainer :: "unit outcome"

definition upload_handler ::
  "job_store \<Rightarrow> string \<Rightarrow> upload_request \<Rightarrow> upload_env \<Rightarrow> job_store \<times> response" where
  "upload_handler jobs jobId req env =
     (case upload_begin jobs jobId req (env_read_file env) of
        (jobs1, Responded r) \<Rightarrow> (jobs1, r)
      | (jobs1, Suspended) \<Rightarrow>
          (case upload_after_storage jobs1 jobId (env_storage env) (env_unlink env) of
             (jobs2, Responded r) \<Rightarrow> (jobs2, r)
           | (jobs2, Suspended) \<Rightarrow> upload_after_trainer jobs2 jobId (env_trainer env)))"

section \<open>The server as requests interleave\<close>

text \<open>
  The state of the running server: the store, and the upload requests that are suspended
  at an \<open>await\<close>, each with the \<open>jobId\<close> of its closure. An event is the arrival of a
  request or the answer an \<open>await\<close> was waiting for; between two events a handler runs
  undisturbed. A step gives the new state and the response sent in it, if one is sent.
  An answer for a request that is not suspended there changes nothing. A run ends, with
  the value of the handler, when a handler leaves the model.
\<close>

datatype phase = AtStorage | AtTrainer

record server =
  srv_jobs :: job_store
  srv_pending :: "(string \<times> phase) list"

datatype event =
    UploadArrives string upload_request "unit outcome"
  | StorageAnswers string "storage_reply outcome" "unit outcome"
  | TrainerAnswers string "unit outcome"
  | CallbackArrives "callback_body option"
  | StatusArrives string

definition server_init :: server where
  "server_init = \<lparr>srv_jobs = Map.empty, srv_pending = []\<rparr>"

fun server_step :: "server \<Rightarrow> event \<Rightarrow> escape + server \<times> response option" where
  "server_step s (UploadArrives jobId req read_file) =
     (case upload_begin (srv_jobs s) jobId req read_file of
        (jobs1, Responded r) \<Rightarrow> Inr (s\<lparr>srv_jobs := jobs1\<rparr>, Some r)
      | (jobs1, Suspended) \<Rightarrow>
          Inr (\<lparr>srv_jobs = jobs1, srv_pending = srv_pending s @ [(jobId, AtStorage)]\<rparr>, None))"
| "server_step s (StorageAnswers jobId storage unlink) =
     (if (jobId, AtStorage) \<in> set (srv_pending s) then
        (case upload_after_storage (srv_jobs s) jobId storage unlink of
           (jobs1, Responded r) \<Rightarrow>
             Inr (\<lparr>srv_jobs = jobs1,
                   srv_pending = remove1 (jobId, AtStorage) (srv_pending s)\<rparr>, Some r)
         | (jobs1, Suspended) \<Rightarrow>
             Inr (\<lparr>srv_jobs = jobs1,
                   srv_pending = remove1 (jobId, AtStorage) (srv_pending s) @ [(jobId, AtTrainer)]\<rparr>,
                  None))
      else Inr (s, None))"
| "server_step s (TrainerAnswers jobId trainer) =
     (if (jobId, AtTrainer) \<in> set (srv_pending s) then
        (case upload_after_trainer (srv_jobs s) jobId trainer of
           (jobs1, r) \<Rightarrow>
             Inr (\<lparr>srv_jobs = jobs1,
                   srv_pending = remove1 (jobId, AtTrainer) (srv_pending s)\<rparr>, Some r))
      else Inr (s, None))"
| "server_step s (CallbackArrives req_body) =
     (case callback_handler (srv_jobs s) req_body of
        Inl x \<Rightarrow> Inl x
      | Inr (jobs1, r) \<Rightarrow> Inr (s\<lparr>srv_jobs := jobs1\<rparr>, Some r))"
| "server_step s (StatusArrives jobId) =
     (case status_handler (srv_jobs s) jobId of
        (jobs1, r) \<Rightarrow> Inr (s\<lparr>srv_jobs := jobs1\<rparr>, Some r))"

fun server_run :: "server \<Rightarrow> event list \<Rightarrow> escape + server" where
  "server_run s [] = Inr s"
| "server_run s (e # es) =
     (case server_step s e of
        Inl x \<Rightarrow> Inl x
      | Inr (s1, r) \<Rightarrow> server_run s1 es)"







section \<open>The polling client (UploadDataset.jsx)\<close>












section \<open>Predicates the proofs use\<close>

text \<open>
  \<open>completed_has_result\<close>: every completed record of a store carries a result.
\<close>

definition completed_has_result :: "job_store \<Rightarrow> bool" where
  "completed_has_result jobs =
     (\<forall>k job. jobs k = Some job \<and> status job = JStr ''completed'' \<longrightarrow> result job \<noteq> None)"





section \<open>The status handler\<close>

text \<open>
  What the status handler does: it answers with the record (HTTP 200) for a key of the
  store, and with HTTP 404 and \<open>{status: "error", message: "Job not found"}\<close> for a key
  that is neither in the store nor inherited; it never changes the store.
\<close>

lemma status_handler_lookup:
  "(jobs jobId = Some job \<longrightarrow>
      status_handler jobs jobId = (jobs, Response 200 (JobRecord job)))
   \<and> (jobs jobId = None \<and> jobId \<notin> set object_prototype_names \<longrightarrow>
      status_handler jobs jobId = (jobs, Response 404 (StatusMessage ''error'' ''Job not found'')))
   \<and> fst (status_handler jobs jobId) = jobs"
  by (simp add: status_handler_def lookup_def split: option.splits)

text \<open>
  Claim C5 asks for HTTP 404 for every identifier that is not in the job store. The
  code answers 404 only when \<open>jobs[jobId]\<close> is not truthy, and for an identifier that
  \<open>jobs\<close> inherits the lookup finds a built-in object: on the empty store the identifiers
  \<open>constructor\<close>, \<open>toString\<close> and \<open>__proto__\<close> are answered with HTTP 200.
\<close>

theorem status_handler_inherited_name:
  "status_handler Map.empty ''constructor''
     = (Map.empty, Response 200 (InheritedProperty ''constructor''))
   \<and> status_handler Map.empty ''toString''
     = (Map.empty, Response 200 (InheritedProperty ''toString''))
   \<and> status_handler Map.empty ''__proto__''
     = (Map.empty, Response 200 (InheritedProperty ''__proto__''))"
  by (simp add: status_handler_def lookup_def object_prototype_names_def)

section \<open>The callback handler\<close>



text \<open>
  A callback whose \<open>jobId\<close> names no job of the store is not always a no-op answered with
  success. For an object with a property \<open>toString\<close> of its own, \<open>jobs[jobId]\<close> throws and
  the \<open>catch\<close> answers HTTP 500. For a name that \<open>jobs\<close> inherits, here \<open>__proto__\<close> on the
  empty store, the guard \<open>jobId && jobs[jobId]\<close> holds and status, progress and result
  are assigned to the built-in object, here \<open>Object.prototype\<close>.
\<close>

theorem callback_inherited_name:
  "callback_handler Map.empty
     (Some \<lparr>cb_jobId = JObj [(''toString'', JStr ''x'')], cb_status = JUndefined,
        cb_display_metric = JStr ''0.92 R2'', cb_message = JStr ''Great fit''\<rparr>)
   = Inr (Map.empty, Response 500 (StatusMessage ''error'' ''Failed to process callback''))
   \<and> callback_handler Map.empty
     (Some \<lparr>cb_jobId = JStr ''__proto__'', cb_status = JUndefined,
        cb_display_metric = JStr ''0.92 R2'', cb_message = JStr ''Great fit''\<rparr>)
   = Inl (WroteBuiltin ''__proto__'' (JStr ''completed'')
            \<lparr>display_metric = JStr ''0.92 R2'', result_message = JStr ''Great fit''\<rparr>)"
  by (simp add: callback_handler_def lookup_def object_prototype_names_def)

text \<open>
  Claim C6, amended. When the callback's \<open>jobId\<close> is missing or not truthy, or is a
  property name that \<open>jobs\<close> neither has nor inherits, the handler leaves the store as it is
  and answers HTTP 200 with \<open>{status: "success", message: "Callback processed"}\<close>. When
  the conversion of a truthy \<open>jobId\<close> to a property name throws, the handler leaves the
  store as it is and its \<open>catch\<close> answers HTTP 500.
\<close>

theorem callback_unknown_job:
  "(\<not> truthy (cb_jobId b)
      \<or> (to_key (cb_jobId b) = Some k \<and> jobs k = None \<and> k \<notin> set object_prototype_names)
    \<longrightarrow> callback_handler jobs (Some b) = Inr (jobs, Response 200 (StatusMessage ''success'' ''Callback processed'')))
   \<and> (truthy (cb_jobId b) \<and> to_key (cb_jobId b) = None
    \<longrightarrow> callback_handler jobs (Some b) = Inr (jobs, Response 500 (StatusMessage ''error'' ''Failed to process callback'')))"
  by (auto simp: callback_handler_def lookup_def)

theorem callback_unknown_job_witness:
  "callback_handler Map.empty
     (Some \<lparr>cb_jobId = JStr ''7c9e6679'', cb_status = JUndefined,
        cb_display_metric = JStr ''0.92 R2'', cb_message = JStr ''Great fit''\<rparr>)
   = Inr (Map.empty, Response 200 (StatusMessage ''success'' ''Callback processed''))
   \<and> callback_handler
     [''7c9e6679'' \<mapsto> \<lparr>job_id = ''7c9e6679'', status = JStr ''training'', progress = 40,
        email = JStr ''a@b.com'', message = None, result = None\<rparr>]
     (Some \<lparr>cb_jobId = JUndefined, cb_status = JUndefined,
        cb_display_metric = JStr ''0.92 R2'', cb_message = JStr ''Great fit''\<rparr>)
   = Inr ([''7c9e6679'' \<mapsto> \<lparr>job_id = ''7c9e6679'', status = JStr ''training'', progress = 40,
        email = JStr ''a@b.com'', message = None, result = None\<rparr>],
          Response 200 (StatusMessage ''success'' ''Callback processed''))
   \<and> callback_handler
     [''7c9e6679'' \<mapsto> \<lparr>job_id = ''7c9e6679'', status = JStr ''training'', progress = 40,
        email = JStr ''a@b.com'', message = None, result = None\<rparr>]
     (Some \<lparr>cb_jobId = JObj [(''toString'', JStr ''x'')], cb_status = JUndefined,
        cb_display_metric = JStr ''0.92 R2'', cb_message = JStr ''Great fit''\<rparr>)
   = Inr ([''7c9e6679'' \<mapsto> \<lparr>job_id = ''7c9e6679'', status = JStr ''training'', progress = 40,
        email = JStr ''a@b.com'', message = None, result = None\<rparr>],
          Response 500 (StatusMessage ''error'' ''Failed to process callback''))"
  using callback_unknown_job
    [of "\<lparr>cb_jobId = JStr ''7c9e6679'', cb_status = JUndefined,
        cb_display_metric = JStr ''0.92 R2'', cb_message = JStr ''Great fit''\<rparr>" "''7c9e6679''" Map.empty]
    callback_unknown_job
    [of "\<lparr>cb_jobId = JUndefined, cb_status = JUndefined,
        cb_display_metric = JStr ''0.92 R2'', cb_message = JStr ''Great fit''\<rparr>" "''7c9e6679''"
        "[''7c9e6679'' \<mapsto> \<lparr>job_id = ''7c9e6679'', status = JStr ''training'', progress = 40,
        email = JStr ''a@b.com'', message = None, result = None\<rparr>]"]
    callback_unknown_job
    [of "\<lparr>cb_jobId = JObj [(''toString'', JStr ''x'')], cb_status = JUndefined,
        cb_display_metric = JStr ''0.92 R2'', cb_message = JStr ''Great fit''\<rparr>" "''7c9e6679''"
        "[''7c9e6679'' \<mapsto> \<lparr>job_id = ''7c9e6679'', status = JStr ''training'', progress = 40,
        email = JStr ''a@b.com'', message = None, result = None\<rparr>]"]
  by (simp add: object_prototype_names_def)

text \<open>
  Claim C7. Handling the same callback a second time leaves the store, and the response,
  exactly as the first handling left them. This holds whatever the state of the job, so
  in particular for a job that is completed. (A handling that assigns to a built-in
  object leaves the model, the first time already.)
\<close>

theorem callback_idempotent:
  "(case callback_handler jobs req_body of
      Inl x \<Rightarrow> Inl x
    | Inr (jobs', r) \<Rightarrow> callback_handler jobs' req_body)
   = callback_handler jobs req_body"
  by (cases req_body)
     (auto simp: callback_handler_def lookup_def split: option.splits)

text \<open>
  Claim C10. When the callback's \<open>jobId\<close> names a job of the store, the handler changes
  nothing of that record but its status, progress and result (so its id, email and
  message stay), and the record under every other key \<open>k'\<close> stays as it was.
\<close>

theorem callback_frame:
  assumes "truthy (cb_jobId b)" and "to_key (cb_jobId b) = Some k" and "jobs k = Some job"
  shows "\<exists>jobs' r job'.
           callback_handler jobs (Some b) = Inr (jobs', r)
           \<and> jobs' k = Some job'
           \<and> job' = job\<lparr>status := status job', progress := progress job', result := result job'\<rparr>
           \<and> job_id job' = job_id job \<and> email job' = email job \<and> message job' = message job
           \<and> (k' \<noteq> k \<longrightarrow> jobs' k' = jobs k')"
  using assms by (simp add: callback_handler_def lookup_def)

theorem callback_frame_witness:
  "\<exists>jobs' r job'.
     callback_handler
        [''7c9e6679'' \<mapsto> \<lparr>job_id = ''7c9e6679'', status = JStr ''training'', progress = 40,
        email = JStr ''a@b.com'', message = None, result = None\<rparr>,
         ''1b4e28ba'' \<mapsto> \<lparr>job_id = ''1b4e28ba'', status = JStr ''uploading'', progress = 10,
        email = JStr ''c@d.org'', message = None, result = None\<rparr>]
        (Some \<lparr>cb_jobId = JStr ''7c9e6679'', cb_status = JUndefined,
        cb_display_metric = JStr ''0.92 R2'', cb_message = JStr ''Great fit''\<rparr>) = Inr (jobs', r)
     \<and> jobs' ''7c9e6679'' = Some job'
     \<and> job_id job' = ''7c9e6679'' \<and> email job' = JStr ''a@b.com'' \<and> message job' = None
     \<and> jobs' ''1b4e28ba''
        = Some \<lparr>job_id = ''1b4e28ba'', status = JStr ''uploading'', progress = 10,
        email = JStr ''c@d.org'', message = None, result = None\<rparr>"
  using callback_frame
    [of "\<lparr>cb_jobId = JStr ''7c9e6679'', cb_status = JUndefined,
        cb_display_metric = JStr ''0.92 R2'', cb_message = JStr ''Great fit''\<rparr>" "''7c9e6679''"
        "[''7c9e6679'' \<mapsto> \<lparr>job_id = ''7c9e6679'', status = JStr ''training'', progress = 40,
        email = JStr ''a@b.com'', message = None, result = None\<rparr>,
          ''1b4e28ba'' \<mapsto> \<lparr>job_id = ''1b4e28ba'', status = JStr ''uploading'', progress = 10,
        email = JStr ''c@d.org'', message = None, result = None\<rparr>]"
        "\<lparr>job_id = ''7c9e6679'', status = JStr ''training'', progress = 40,
        email = JStr ''a@b.com'', message = None, result = None\<rparr>"
        "''1b4e28ba''"]
  by auto

section \<open>The upload handler\<close>

text \<open>
  Claim C4. Once the record of a request has been created (the request has a file and an
  email), a failure of any later step (reading the file, the storage upload, deleting the
  local file, the call to the trainer, a timeout or a response outside 2xx included) with
  error \<open>e\<close> leaves that record in the store with status \<open>error\<close> and the error's message,
  the request is answered with HTTP 500 and a message that quotes it, and a status query
  returns the record. The witness is a trainer call that times out.
\<close>

theorem upload_failure:
  assumes "req_csv req = Some csvPath" and "truthy (req_email req)"
    and "env_read_file env = Throws e
         \<or> (env_read_file env = Returns () \<and> env_storage env = Throws e)
         \<or> (env_read_file env = Returns () \<and> env_storage env = Returns (StorageError m)
              \<and> e = \<lparr>err_message = ''Supabase upload failed: '' @ (if m \<noteq> [] then m else ''Unknown error''),
                      err_response_data = None\<rparr>)
         \<or> (env_read_file env = Returns () \<and> env_storage env = Returns (StorageData p)
              \<and> env_unlink env = Throws e)
         \<or> (env_read_file env = Returns () \<and> env_storage env = Returns (StorageData p)
              \<and> env_unlink env = Returns () \<and> env_trainer env = Throws e)"
  shows "\<exists>jobs' job'.
           upload_handler jobs jobId req env
             = (jobs', Response 500
                  (UploadFailed ''error'' (''Upload process failed: '' @ err_message e)
                     (case err_response_data e of None \<Rightarrow> JNull
                      | Some d \<Rightarrow> if truthy d then d else JNull)))
           \<and> jobs' jobId = Some job'
           \<and> job_id job' = jobId
           \<and> status job' = JStr ''error''
           \<and> message job' = Some (err_message e)
           \<and> status_handler jobs' jobId = (jobs', Response 200 (JobRecord job'))"
  using assms
  by (auto simp: upload_handler_def upload_begin_def upload_after_storage_def
                upload_after_trainer_def upload_catch_def status_handler_def lookup_def)

theorem upload_failure_witness:
  "upload_handler Map.empty ''7c9e6679'' \<lparr>req_csv = Some ''uploads/data.csv'', req_email = JStr ''a@b.com''\<rparr>
     \<lparr>env_read_file = Returns (), env_storage = Returns (StorageData ''uploads/1700000000000_data.csv''),
        env_unlink = Returns (), env_trainer = Throws \<lparr>err_message = ''timeout of 10000ms exceeded'', err_response_data = None\<rparr>\<rparr>
   = ([''7c9e6679'' \<mapsto> \<lparr>job_id = ''7c9e6679'', status = JStr ''error'', progress = 40,
        email = JStr ''a@b.com'', message = Some ''timeout of 10000ms exceeded'', result = None\<rparr>],
      Response 500 (UploadFailed ''error'' ''Upload process failed: timeout of 10000ms exceeded'' JNull))
   \<and> status_handler [''7c9e6679'' \<mapsto> \<lparr>job_id = ''7c9e6679'', status = JStr ''error'', progress = 40,
        email = JStr ''a@b.com'', message = Some ''timeout of 10000ms exceeded'', result = None\<rparr>] ''7c9e6679''
   = ([''7c9e6679'' \<mapsto> \<lparr>job_id = ''7c9e6679'', status = JStr ''error'', progress = 40,
        email = JStr ''a@b.com'', message = Some ''timeout of 10000ms exceeded'', result = None\<rparr>],
      Response 200 (JobRecord \<lparr>job_id = ''7c9e6679'', status = JStr ''error'', progress = 40,
        email = JStr ''a@b.com'', message = Some ''timeout of 10000ms exceeded'', result = None\<rparr>))"
  using upload_failure
    [of "\<lparr>req_csv = Some ''uploads/data.csv'', req_email = JStr ''a@b.com''\<rparr>" "''uploads/data.csv''"
        "\<lparr>env_read_file = Returns (), env_storage = Returns (StorageData ''uploads/1700000000000_data.csv''),
        env_unlink = Returns (), env_trainer = Throws \<lparr>err_message = ''timeout of 10000ms exceeded'', err_response_data = None\<rparr>\<rparr>"
        "\<lparr>err_message = ''timeout of 10000ms exceeded'', err_response_data = None\<rparr>" "[]"
        "''uploads/1700000000000_data.csv''" Map.empty "''7c9e6679''"]
  by (simp add: upload_handler_def upload_begin_def upload_after_storage_def
        upload_after_trainer_def upload_catch_def status_handler_def lookup_def)

section \<open>A successful upload\<close>














section \<open>Result and status\<close>




lemma chr_upload_catch:
  "completed_has_result jobs \<Longrightarrow> completed_has_result (fst (upload_catch jobs k e))"
  by (auto simp: completed_has_result_def upload_catch_def split: option.splits if_splits)








section \<open>The order of statuses\<close>


text \<open>
  So does an upload that draws the identifier of a job already in the store: the new
  record, at \<open>uploading\<close>, replaces the completed one.
\<close>

lemma reused_identifier_resets_status:
  "\<exists>s. server_run server_init
          [UploadArrives ''7c9e6679'' \<lparr>req_csv = Some ''uploads/data.csv'', req_email = JStr ''a@b.com''\<rparr> (Returns ()),
           StorageAnswers ''7c9e6679'' (Returns (StorageData ''uploads/1700000000000_data.csv''))
        (Returns ()),
           TrainerAnswers ''7c9e6679'' (Returns ()),
           CallbackArrives (Some \<lparr>cb_jobId = JStr ''7c9e6679'', cb_status = JUndefined,
                              cb_display_metric = JStr ''0.92 R2'',
                              cb_message = JStr ''Great fit''\<rparr>),
           UploadArrives ''7c9e6679'' \<lparr>req_csv = Some ''uploads/data.csv'', req_email = JStr ''a@b.com''\<rparr> (Returns ())] = Inr s
       \<and> map_option status (srv_jobs s ''7c9e6679'') = Some (JStr ''uploading'')"
  by (simp add: server_init_def upload_begin_def upload_after_storage_def
        upload_after_trainer_def callback_handler_def lookup_def)


























section \<open>The progress the client shows\<close>






end
